theory Spec2Isabelle
  imports Main "HOL-Library.Finite_Map" "HOL-Library.Sublist" "HOL-Library.List_Lexorder"
begin

section \<open>Python values\<close>

text \<open>
  A Python \<open>str\<close> is a sequence of Unicode code points, lone surrogates included
  (\<open>json.loads\<close> accepts the escape of a lone surrogate). It is modelled as the list of the
  code points; \<open>py\<close> turns an ASCII literal into such a list.
\<close>

type_synonym pystr = "nat list"

definition py :: "string \<Rightarrow> pystr" where
  "py s = map of_char s"

text \<open>The characters \<open>str.isspace\<close> accepts; \<open>str.split()\<close> and \<open>str.strip()\<close> use them.\<close>

definition py_isspace :: "nat \<Rightarrow> bool" where
  "py_isspace c \<longleftrightarrow>
     (9 \<le> c \<and> c \<le> 13) \<or> (28 \<le> c \<and> c \<le> 32) \<or> c = 133 \<or> c = 160 \<or> c = 5760 \<or>
     (8192 \<le> c \<and> c \<le> 8202) \<or> c = 8232 \<or> c = 8233 \<or> c = 8239 \<or> c = 8287 \<or> c = 12288"

text \<open>\<open>text.split()\<close>: the maximal runs of characters that are not whitespace.\<close>

function py_split :: "pystr \<Rightarrow> pystr list" where
  "py_split [] = []"
| "py_split (c # cs) =
     (if py_isspace c then py_split cs
      else (c # takeWhile (\<lambda>x. \<not> py_isspace x) cs) #
           py_split (dropWhile (\<lambda>x. \<not> py_isspace x) cs))"
  by pat_completeness auto
termination
  by (relation "measure length") (auto simp: less_Suc_eq_le length_dropWhile_le)

text \<open>\<open>text.strip()\<close>: whitespace removed at both ends.\<close>

definition py_strip :: "pystr \<Rightarrow> pystr" where
  "py_strip s = rev (dropWhile py_isspace (rev (dropWhile py_isspace s)))"

text \<open>\<open>' '.join(parts)\<close>.\<close>

fun py_join :: "pystr list \<Rightarrow> pystr" where
  "py_join [] = []"
| "py_join [s] = s"
| "py_join (s # t # ts) = s @ 32 # py_join (t # ts)"

text \<open>\<open>sub in s\<close> on strings: \<open>sub\<close> occurs in \<open>s\<close> as a contiguous run.\<close>

fun py_in :: "pystr \<Rightarrow> pystr \<Rightarrow> bool" where
  "py_in sub [] = (sub = [])"
| "py_in sub (c # cs) = (prefix sub (c # cs) \<or> py_in sub cs)"

text \<open>
  \<open>text.encode('utf-8', 'ignore').decode('utf-8')\<close>: the only code points of a \<open>str\<close> that
  UTF-8 cannot encode are the surrogates U+D800 to U+DFFF; \<open>'ignore'\<close> leaves them out, and
  decoding gives every other character back.
\<close>

definition is_surrogate :: "nat \<Rightarrow> bool" where
  "is_surrogate c \<longleftrightarrow> 55296 \<le> c \<and> c \<le> 57343"

definition utf8_ignore :: "pystr \<Rightarrow> pystr" where
  "utf8_ignore s = filter (\<lambda>c. \<not> is_surrogate c) s"

text \<open>The exceptions the program can raise on a JSON value.\<close>

datatype error = KeyError | TypeError | AttributeError | ZeroDivisionError | IndexError

text \<open>
  What \<open>json.loads\<close> returns. \<open>JNum\<close> stands for both \<open>int\<close> and \<open>float\<close>: the program
  never computes with a number it reads, it only finds that a number is neither a \<open>str\<close> nor
  a \<open>list\<close>. A \<open>dict\<close> is a finite map; the order of its keys plays no part below.
\<close>

datatype json =
    JNull
  | JBool bool
  | JNum rat
  | JStr pystr
  | JList "json list"
  | JDict "(pystr, json) fmap"

type_synonym dict = "(pystr, json) fmap"

text \<open>\<open>d.get(key, default)\<close> on a \<open>dict\<close>.\<close>

definition dict_get :: "dict \<Rightarrow> pystr \<Rightarrow> json \<Rightarrow> json" where
  "dict_get d key dflt = (case fmlookup d key of None \<Rightarrow> dflt | Some v \<Rightarrow> v)"

text \<open>
  \<open>obj[key]\<close> with a \<open>str\<close> key: a \<open>dict\<close> without the key raises \<open>KeyError\<close>, every other
  value raises \<open>TypeError\<close> (a list or a string takes integer indices only, the rest is not
  subscriptable).
\<close>

definition getitem :: "json \<Rightarrow> pystr \<Rightarrow> error + json" where
  "getitem obj key =
     (case obj of
        JDict d \<Rightarrow> (case fmlookup d key of None \<Rightarrow> Inl KeyError | Some v \<Rightarrow> Inr v)
      | _ \<Rightarrow> Inl TypeError)"

text \<open>
  \<open>for x in obj\<close>: the elements of a list, the characters of a string (each a string of
  length one), the keys of a dict; anything else is not iterable.
\<close>

definition py_iter :: "json \<Rightarrow> error + json list" where
  "py_iter obj =
     (case obj of
        JList xs \<Rightarrow> Inr xs
      | JStr s \<Rightarrow> Inr (map (\<lambda>c. JStr [c]) s)
      | JDict d \<Rightarrow> Inr (map JStr (sorted_list_of_fset (fmdom d)))
      | _ \<Rightarrow> Inl TypeError)"

text \<open>
  \<open>sub in obj\<close> for a string \<open>sub\<close>: substring test on a string, membership in a list, key
  test on a dict; anything else is not iterable.
\<close>

definition py_contains :: "pystr \<Rightarrow> json \<Rightarrow> error + bool" where
  "py_contains sub obj =
     (case obj of
        JStr s \<Rightarrow> Inr (py_in sub s)
      | JList xs \<Rightarrow> Inr (JStr sub \<in> set xs)
      | JDict d \<Rightarrow> Inr (sub |\<in>| fmdom d)
      | _ \<Rightarrow> Inl TypeError)"

text \<open>
  \<open>copy.deepcopy\<close>: values are immutable here, so the copy of a value is the value.
\<close>

definition deepcopy :: "dict \<Rightarrow> dict" where
  "deepcopy d = d"

section \<open>Constants of the module\<close>

definition ASIN :: pystr where "ASIN = py ''asin''"
definition TITLE :: pystr where "TITLE = py ''title''"
definition DESCRIPTION :: pystr where "DESCRIPTION = py ''description''"
definition FEATURE :: pystr where "FEATURE = py ''feature''"
definition PRICE :: pystr where "PRICE = py ''price''"
definition BRAND :: pystr where "BRAND = py ''brand''"

definition SOURCES :: "pystr list" where
  "SOURCES = [TITLE, DESCRIPTION, FEATURE, PRICE, BRAND]"

text \<open>The keys the program reads and writes.\<close>

definition K_paragraphs :: pystr where "K_paragraphs = py ''paragraphs''"
definition K_text :: pystr where "K_text = py ''text''"
definition K_source :: pystr where "K_source = py ''source''"
definition K_id :: pystr where "K_id = py ''id''"
definition K_category :: pystr where "K_category = py ''category''"
definition K_attributes :: pystr where "K_attributes = py ''attributes''"

section \<open>JoinWithLabelsFn\<close>



section \<open>ConvertSourcesFn\<close>

text \<open>\<open>dict(text=..., source=...)\<close>.\<close>

definition paragraph_dict :: "pystr \<Rightarrow> json \<Rightarrow> json" where
  "paragraph_dict text source = JDict (fmap_of_list [(K_text, JStr text), (K_source, source)])"

text \<open>
  The list comprehension of \<open>_create_paragraphs\<close>: \<open>text.strip()\<close> exists on strings only, any
  other element raises \<open>AttributeError\<close>.
\<close>

fun strip_texts :: "pystr \<Rightarrow> json list \<Rightarrow> error + json list" where
  "strip_texts source [] = Inr []"
| "strip_texts source (text # texts) =
     (case text of
        JStr s \<Rightarrow>
          (case strip_texts source texts of
             Inl e \<Rightarrow> Inl e
           | Inr ps \<Rightarrow>
               Inr (if py_strip s \<noteq> [] then paragraph_dict (py_strip s) (JStr source) # ps
                    else ps))
      | _ \<Rightarrow> Inl AttributeError)"

definition create_paragraphs :: "pystr \<Rightarrow> dict \<Rightarrow> error + json list" where
  "create_paragraphs source json_example =
     (let data = dict_get json_example source (JList []);
          texts = (case data of JStr s \<Rightarrow> [data] | JList xs \<Rightarrow> xs | _ \<Rightarrow> [])
      in strip_texts source texts)"

text \<open>\<open>itertools.chain.from_iterable\<close> over the sources, in their order.\<close>

fun chain_paragraphs :: "pystr list \<Rightarrow> dict \<Rightarrow> error + json list" where
  "chain_paragraphs [] json_example = Inr []"
| "chain_paragraphs (source # sources) json_example =
     (case create_paragraphs source json_example of
        Inl e \<Rightarrow> Inl e
      | Inr ps \<Rightarrow>
          (case chain_paragraphs sources json_example of
             Inl e \<Rightarrow> Inl e
           | Inr qs \<Rightarrow> Inr (ps @ qs)))"

text \<open>
  \<open>ConvertSourcesFn.process\<close>. In the dict display
  \<open>{'paragraphs': paragraphs, **labels}\<close> a key of \<open>labels\<close> replaces an earlier one.
\<close>

definition ConvertSourcesFn_process :: "dict \<times> dict \<Rightarrow> error + dict list" where
  "ConvertSourcesFn_process element =
     (case element of (json_example, labels) \<Rightarrow>
        (case chain_paragraphs SOURCES json_example of
           Inl e \<Rightarrow> Inl e
         | Inr paragraphs \<Rightarrow>
             Inr [fmupd K_paragraphs (JList paragraphs) fmempty ++\<^sub>f deepcopy labels]))"

section \<open>The detectors\<close>

text \<open>
  The test of one token in \<open>is_css\<close>; \<open>re.findall('-', token)\<close> is the list of the hyphens
  of the token.
\<close>

definition css_element :: "pystr \<Rightarrow> bool" where
  "css_element token \<longleftrightarrow>
     (prefix (py ''.'') token \<or> prefix (py ''#'') token \<or> prefix (py ''div'') token) \<or>
     py_in (py ''px'') token \<or>
     length (filter (\<lambda>c. c = 45) token) > 1"

text \<open>The loop of \<open>is_css\<close> over the tokens, on the pair \<open>(num_tokens, num_css_elements)\<close>.\<close>

fun count_tokens :: "pystr list \<Rightarrow> int \<times> int \<Rightarrow> int \<times> int" where
  "count_tokens [] counts = counts"
| "count_tokens (token # tokens) (num_tokens, num_css_elements) =
     count_tokens tokens
       (num_tokens + 1,
        if css_element token then num_css_elements + 1 else num_css_elements)"

text \<open>
  \<open>is_css\<close>. The quotient is evaluated before anything else, so no token at all raises
  \<open>ZeroDivisionError\<close>. The quotient and its comparison with \<open>0.3\<close> are taken in exact
  arithmetic; Python's doubles give the same answer for every text of fewer than
  \<open>10\<^sup>1\<^sup>5\<close> tokens.
\<close>

definition is_css :: "pystr \<Rightarrow> error + bool" where
  "is_css text =
     (case count_tokens (py_split text) (0, 0) of
        (num_tokens, num_css_elements) \<Rightarrow>
          if num_tokens = 0 then Inl ZeroDivisionError
          else Inr ((of_int num_css_elements :: rat) / of_int num_tokens > 3 / 10 \<and>
                    num_css_elements > 20))"

definition is_html :: "pystr \<Rightarrow> bool" where
  "is_html text \<longleftrightarrow>
     py_in (py ''<a href'') text \<or>
     py_in (py ''javascript:'') text \<or>
     py_in (py ''background-color:'') text \<or>
     py_in (py ''background-image:'') text \<or>
     py_in (py '' li:'') text \<or>
     py_in (py ''.aloha'') text"

section \<open>remove_tags\<close>

text \<open>
  The tree \<open>bs4.BeautifulSoup(html, 'html.parser')\<close> builds, as far as \<open>remove_tags\<close> looks at
  it: tags with their names and children, and strings. The parser belongs to the package
  \<open>bs4\<close> and not to this program, so \<open>remove_tags\<close> and the functions that call it take the
  parser as their first argument.
\<close>

datatype soup_node = NavigableString pystr | Tag pystr "soup_node list"

type_synonym parser = "pystr \<Rightarrow> soup_node list"

text \<open>
  \<open>for data in soup(names): data.decompose()\<close>: every tag with one of the names goes, with
  all it holds, at any depth.
\<close>

fun decompose_all :: "pystr list \<Rightarrow> soup_node list \<Rightarrow> soup_node list" where
  "decompose_all names [] = []"
| "decompose_all names (NavigableString s # nodes) =
     NavigableString s # decompose_all names nodes"
| "decompose_all names (Tag name children # nodes) =
     (if name \<in> set names then decompose_all names nodes
      else Tag name (decompose_all names children) # decompose_all names nodes)"

text \<open>\<open>soup.stripped_strings\<close>: the strings in document order, stripped, the empty ones left out.\<close>

fun all_strings :: "soup_node list \<Rightarrow> pystr list" where
  "all_strings [] = []"
| "all_strings (NavigableString s # nodes) = s # all_strings nodes"
| "all_strings (Tag name children # nodes) = all_strings children @ all_strings nodes"

definition stripped_strings :: "soup_node list \<Rightarrow> pystr list" where
  "stripped_strings soup = filter (\<lambda>s. s \<noteq> []) (map py_strip (all_strings soup))"

definition remove_tags :: "parser \<Rightarrow> pystr \<Rightarrow> pystr" where
  "remove_tags BeautifulSoup html =
     py_join (stripped_strings
       (decompose_all [py ''style'', py ''script''] (BeautifulSoup html)))"

section \<open>CleanParagraphsFn\<close>

text \<open>
  The counters of \<open>CleanParagraphsFn\<close> are written and never read; they are left out.

  \<open>space_clean\<close> is \<open>text_space_cleaned\<close> as a function of the paragraph's text (lines 200 to
  212), \<open>clean_text\<close> the rest of the loop body for a string (lines 213 to 231): \<open>None\<close> is
  \<open>continue\<close>, \<open>Some\<close> holds \<open>text_space_cleaned_recovered\<close>.
\<close>

definition space_clean :: "parser \<Rightarrow> pystr \<Rightarrow> pystr" where
  "space_clean BeautifulSoup text =
     (let text_recovered = utf8_ignore text;
          text_html_cleaned = remove_tags BeautifulSoup text_recovered
      in py_join (py_split text_html_cleaned))"

definition clean_text :: "parser \<Rightarrow> pystr \<Rightarrow> error + pystr option" where
  "clean_text BeautifulSoup text =
     (let text_space_cleaned = space_clean BeautifulSoup text
      in if text_space_cleaned = [] then Inr None
         else if is_html text_space_cleaned then Inr None
         else (case is_css text_space_cleaned of
                 Inl e \<Rightarrow> Inl e
               | Inr True \<Rightarrow> Inr None
               | Inr False \<Rightarrow> Inr (Some (utf8_ignore text_space_cleaned))))"

text \<open>
  The body of the loop over the paragraphs. \<open>text.encode\<close> exists on strings only, so a text
  that is no string and was not skipped as a malformed title raises \<open>AttributeError\<close>.
\<close>

definition clean_paragraph :: "parser \<Rightarrow> json \<Rightarrow> error + json option" where
  "clean_paragraph BeautifulSoup paragraph =
     (case getitem paragraph K_text of
        Inl e \<Rightarrow> Inl e
      | Inr text \<Rightarrow>
     (case getitem paragraph K_source of
        Inl e \<Rightarrow> Inl e
      | Inr source \<Rightarrow>
     (case (if source = JStr TITLE then py_contains (py ''getTime'') text else Inr False) of
        Inl e \<Rightarrow> Inl e
      | Inr True \<Rightarrow> Inr None
      | Inr False \<Rightarrow>
          (case text of
             JStr t \<Rightarrow>
               (case clean_text BeautifulSoup t of
                  Inl e \<Rightarrow> Inl e
                | Inr None \<Rightarrow> Inr None
                | Inr (Some cleaned) \<Rightarrow> Inr (Some (paragraph_dict cleaned source)))
           | _ \<Rightarrow> Inl AttributeError))))"

fun clean_paragraphs :: "parser \<Rightarrow> json list \<Rightarrow> error + json list" where
  "clean_paragraphs BeautifulSoup [] = Inr []"
| "clean_paragraphs BeautifulSoup (paragraph # rest) =
     (case clean_paragraph BeautifulSoup paragraph of
        Inl e \<Rightarrow> Inl e
      | Inr kept \<Rightarrow>
          (case clean_paragraphs BeautifulSoup rest of
             Inl e \<Rightarrow> Inl e
           | Inr paragraphs \<Rightarrow>
               Inr (case kept of None \<Rightarrow> paragraphs | Some p \<Rightarrow> p # paragraphs)))"

text \<open>The \<open>for ... else\<close> over the surviving paragraphs: is one of them a title?\<close>

definition has_title :: "json list \<Rightarrow> bool" where
  "has_title paragraphs = list_ex (\<lambda>p. getitem p K_source = Inr (JStr TITLE)) paragraphs"

text \<open>The first part of \<open>process\<close>: the loop over \<open>json_example['paragraphs']\<close>.\<close>

definition surviving_paragraphs :: "parser \<Rightarrow> dict \<Rightarrow> error + json list" where
  "surviving_paragraphs BeautifulSoup json_example =
     (case getitem (JDict json_example) K_paragraphs of
        Inl e \<Rightarrow> Inl e
      | Inr pv \<Rightarrow>
          (case py_iter pv of
             Inl e \<Rightarrow> Inl e
           | Inr items \<Rightarrow> clean_paragraphs BeautifulSoup items))"

definition CleanParagraphsFn_process :: "parser \<Rightarrow> dict \<Rightarrow> error + dict list" where
  "CleanParagraphsFn_process BeautifulSoup json_example =
     (case surviving_paragraphs BeautifulSoup json_example of
        Inl e \<Rightarrow> Inl e
      | Inr paragraphs \<Rightarrow>
          if \<not> has_title paragraphs then Inr []
          else
            (case getitem (JDict json_example) K_id of
               Inl e \<Rightarrow> Inl e
             | Inr ident \<Rightarrow>
            (case getitem (JDict json_example) K_category of
               Inl e \<Rightarrow> Inl e
             | Inr category \<Rightarrow>
            (case getitem (JDict json_example) K_attributes of
               Inl e \<Rightarrow> Inl e
             | Inr attributes \<Rightarrow>
                 Inr [fmap_of_list
                        [(K_id, ident), (K_category, category),
                         (K_paragraphs, JList paragraphs), (K_attributes, attributes)]]))))"

section \<open>The deduplication of the pipeline\<close>







section \<open>The detector as the specification words it\<close>

text \<open>
  A token counts as a CSS element if it starts with \<open>.\<close>, \<open>#\<close> or \<open>div\<close>, or contains the
  substring \<open>px\<close>, or contains two or more hyphen characters. The paragraph is dropped if
  the ratio of the CSS element count to the total token count exceeds 0.3 and the CSS
  element count exceeds 20.
\<close>

definition spec_css_element :: "pystr \<Rightarrow> bool" where
  "spec_css_element token \<longleftrightarrow>
     (prefix (py ''.'') token \<or> prefix (py ''#'') token \<or> prefix (py ''div'') token) \<or>
     sublist (py ''px'') token \<or>
     2 \<le> count_list token 45"

definition spec_css_drop :: "pystr \<Rightarrow> bool" where
  "spec_css_drop text \<longleftrightarrow>
     (let tokens = py_split text;
          css_element_count = length (filter spec_css_element tokens);
          total_token_count = length tokens
      in (of_nat css_element_count :: rat) / of_nat total_token_count > 3 / 10 \<and>
         css_element_count > 20)"

section \<open>Sample inputs\<close>

text \<open>
  The concrete runs need the trees of the parser for the texts they use. \<open>sample_parse\<close>
  lists them as \<open>html.parser\<close> builds them: a \<open>p\<close> element that holds a \<open>script\<close> element; a
  text with the entity reference \<open>&amp;\<close>, which the parser replaces by the character
  \<open>&\<close>; nothing for the empty text. Any other text is kept as one string, which is what
  the parser does with a text that holds neither \<open><\<close> nor \<open>&\<close>; the runs use no other
  kind of text.
\<close>

definition sample_parse :: parser where
  "sample_parse html =
     (if html = py ''<p>Nice <script>evil()</script>item</p>'' then
        [Tag (py ''p'')
           [NavigableString (py ''Nice ''),
            Tag (py ''script'') [NavigableString (py ''evil()'')],
            NavigableString (py ''item'')]]
      else if html = py ''Tom &amp; Jerry'' then [NavigableString (py ''Tom & Jerry'')]
      else if html = [] then []
      else [NavigableString html])"

text \<open>A text of 25 tokens, of which the first nine are CSS elements.\<close>

definition css_sample :: pystr where
  "css_sample =
     py ''.a #b divx 1px a-b-c .c #d div 2px a-b p x y z w v u t s r q o n m l''"

text \<open>A token as \<open>split()\<close> returns it: not empty, no whitespace in it.\<close>

definition token_ok :: "pystr \<Rightarrow> bool" where
  "token_ok t \<longleftrightarrow> t \<noteq> [] \<and> list_all (\<lambda>c. \<not> py_isspace c) t"

text \<open>The parse found no tag: the tree holds strings only.\<close>

fun no_tags :: "soup_node list \<Rightarrow> bool" where
  "no_tags [] = True"
| "no_tags (NavigableString s # nodes) = no_tags nodes"
| "no_tags (Tag name children # nodes) = False"

text \<open>
  Four inputs of \<open>CleanParagraphsFn.process\<close>: a title and a description that holds
  markup; a title that contains \<open>getTime\<close>; a title and a description that is the
  numeric character reference to U+D800; a title in a document whose label has an \<open>id\<close>
  and neither \<open>category\<close> nor \<open>attributes\<close>.
\<close>

definition doc_A :: dict where
  "doc_A = fmap_of_list
     [(K_id, JStr (py ''X1'')), (K_category, JStr (py ''c'')), (K_attributes, JDict fmempty),
      (K_paragraphs, JList
         [paragraph_dict (py ''Hello  World'') (JStr TITLE),
          paragraph_dict (py ''<p>Nice <script>evil()</script>item</p>'') (JStr DESCRIPTION)])]"

definition doc_B :: dict where
  "doc_B = fmap_of_list
     [(K_id, JStr (py ''X3'')), (K_category, JStr (py ''c'')), (K_attributes, JDict fmempty),
      (K_paragraphs, JList
         [paragraph_dict (py ''new Date().getTime()'') (JStr TITLE),
          paragraph_dict (py ''Nice item'') (JStr DESCRIPTION)])]"

definition doc_C :: dict where
  "doc_C = fmap_of_list
     [(K_id, JStr (py ''X4'')), (K_category, JStr (py ''c'')), (K_attributes, JDict fmempty),
      (K_paragraphs, JList
         [paragraph_dict (py ''T'') (JStr TITLE),
          paragraph_dict (py ''&#xD800;'') (JStr DESCRIPTION)])]"

definition doc_D :: dict where
  "doc_D = fmap_of_list
     [(K_id, JStr (py ''X5'')),
      (K_paragraphs, JList [paragraph_dict (py ''Hello  World'') (JStr TITLE)])]"

section \<open>The flattening as the specification words it\<close>

text \<open>
  For each of the five sources in their fixed order: a string is a single candidate text,
  the elements of a sequence are the candidate texts, anything else (missing, null, wrong
  type) is empty. Each candidate is trimmed, and a paragraph is emitted for it if the
  trimmed text is not empty. \<open>strings_only\<close> says that a field, if it is a list, holds
  strings only.
\<close>

fun str_items :: "json list \<Rightarrow> pystr list" where
  "str_items [] = []"
| "str_items (JStr s # xs) = s # str_items xs"
| "str_items (x # xs) = str_items xs"

fun all_str :: "json list \<Rightarrow> bool" where
  "all_str [] = True"
| "all_str (JStr s # xs) = all_str xs"
| "all_str (x # xs) = False"

definition spec_texts :: "json option \<Rightarrow> pystr list" where
  "spec_texts field =
     (case field of
        Some (JStr s) \<Rightarrow> [s]
      | Some (JList xs) \<Rightarrow> str_items xs
      | _ \<Rightarrow> [])"

definition spec_flatten_source :: "pystr \<Rightarrow> json option \<Rightarrow> json list" where
  "spec_flatten_source source field =
     map (\<lambda>t. paragraph_dict (py_strip t) (JStr source))
       (filter (\<lambda>t. py_strip t \<noteq> []) (spec_texts field))"

definition spec_flatten :: "dict \<Rightarrow> json list" where
  "spec_flatten json_example =
     concat (map (\<lambda>source. spec_flatten_source source (fmlookup json_example source)) SOURCES)"

definition strings_only :: "json option \<Rightarrow> bool" where
  "strings_only field = (case field of Some (JList xs) \<Rightarrow> all_str xs | _ \<Rightarrow> True)"

text \<open>
  Two raw records: one with a title, a list of descriptions, no feature, a number as price
  and null as brand; one whose feature list holds a number.
\<close>

definition raw_A :: dict where
  "raw_A = fmap_of_list
     [(ASIN, JStr (py ''X1'')), (TITLE, JStr (py ''Hello  World '')),
      (DESCRIPTION, JList [JStr (py ''<p>Nice <script>evil()</script>item</p>''), JStr (py ''  '')]),
      (PRICE, JNum 5), (BRAND, JNull)]"

definition raw_F :: dict where
  "raw_F = fmap_of_list [(ASIN, JStr (py ''X6'')), (FEATURE, JList [JNum 1])]"

section \<open>Notions for the deduplication\<close>







section \<open>Evaluation on concrete values\<close>

lemmas key_defs = ASIN_def TITLE_def DESCRIPTION_def FEATURE_def PRICE_def BRAND_def
  K_paragraphs_def K_text_def K_source_def K_id_def K_category_def K_attributes_def

lemmas str_defs = py_def py_strip_def py_isspace_def

section \<open>Splitting, joining and stripping\<close>

lemma split_tokens_ok: "list_all token_ok (py_split s)"
proof (induction s rule: py_split.induct)
  case 1
  show ?case by simp
next
  case (2 c cs)
  show ?case
  proof (cases "py_isspace c")
    case True
    with 2 show ?thesis by simp
  next
    case False
    have "list_all (\<lambda>x. \<not> py_isspace x) (takeWhile (\<lambda>x. \<not> py_isspace x) cs)"
      by (auto simp: list_all_iff dest: set_takeWhileD)
    with False 2 show ?thesis by (simp add: token_ok_def)
  qed
qed

lemma split_single: "token_ok t \<Longrightarrow> py_split t = [t]"
proof -
  assume ok: "token_ok t"
  then obtain c cs where t: "t = c # cs" by (cases t) (auto simp: token_ok_def)
  with ok have c: "\<not> py_isspace c" and cs: "\<forall>x\<in>set cs. \<not> py_isspace x"
    by (auto simp: token_ok_def list_all_iff)
  from cs have tw: "takeWhile (\<lambda>x. \<not> py_isspace x) cs = cs"
    and dw: "dropWhile (\<lambda>x. \<not> py_isspace x) cs = []"
    by simp_all
  from c show ?thesis unfolding t by (simp add: tw dw)
qed

lemma split_token_space:
  assumes "token_ok t" and "py_isspace x"
  shows "py_split (t @ x # r) = t # py_split r"
proof -
  from assms(1) obtain c cs where t: "t = c # cs" by (cases t) (auto simp: token_ok_def)
  with assms(1) have c: "\<not> py_isspace c" and cs: "\<forall>y\<in>set cs. \<not> py_isspace y"
    by (auto simp: token_ok_def list_all_iff)
  from cs assms(2) have tw: "takeWhile (\<lambda>y. \<not> py_isspace y) (cs @ x # r) = cs"
    by (simp add: takeWhile_tail)
  from cs assms(2) have dw: "dropWhile (\<lambda>y. \<not> py_isspace y) (cs @ x # r) = x # r"
    by (simp add: dropWhile_append3)
  from c t tw dw assms(2) show ?thesis by simp
qed

lemma space32: "py_isspace 32" by (simp add: py_isspace_def)

lemma split_join: "list_all token_ok ts \<Longrightarrow> py_split (py_join ts) = ts"
proof (induction ts rule: py_join.induct)
  case 1
  show ?case by simp
next
  case (2 s)
  then show ?case by (simp add: split_single)
next
  case (3 s t ts)
  then show ?case by (simp add: split_token_space space32)
qed

lemma join_empty_iff: "list_all token_ok ts \<Longrightarrow> py_join ts = [] \<longleftrightarrow> ts = []"
  by (induction ts rule: py_join.induct) (auto simp: token_ok_def)

lemma strip_front: "token_ok t \<Longrightarrow> dropWhile py_isspace (t @ r) = t @ r"
  by (cases t) (auto simp: token_ok_def)

lemma join_last_ok: "list_all token_ok ts \<Longrightarrow> ts \<noteq> [] \<Longrightarrow> \<not> py_isspace (last (py_join ts)) \<and> \<not> py_isspace (hd (py_join ts)) \<and> py_join ts \<noteq> []"
proof (induction ts rule: py_join.induct)
  case 1
  then show ?case by simp
next
  case (2 s)
  then show ?case by (cases s rule: rev_cases) (auto simp: token_ok_def list_all_iff hd_append intro: hd_in_set)
next
  case (3 s t ts)
  then show ?case by (cases s) (auto simp: token_ok_def)
qed

lemma strip_id: "s \<noteq> [] \<Longrightarrow> \<not> py_isspace (hd s) \<Longrightarrow> \<not> py_isspace (last s) \<Longrightarrow> py_strip s = s"
proof -
  assume a: "s \<noteq> []" "\<not> py_isspace (hd s)" "\<not> py_isspace (last s)"
  then have 1: "dropWhile py_isspace s = s" by (cases s) auto
  from a have "dropWhile py_isspace (rev s) = rev s" by (cases s rule: rev_cases) auto
  with 1 show ?thesis by (simp add: py_strip_def)
qed

lemma strip_join: "list_all token_ok ts \<Longrightarrow> py_strip (py_join ts) = py_join ts"
proof (cases "ts = []")
  case True
  then show ?thesis by (simp add: py_strip_def)
next
  case False
  assume "list_all token_ok ts"
  from join_last_ok [OF this False] show ?thesis by (simp add: strip_id)
qed

section \<open>is_css by counts\<close>

lemma py_in_sublist: "py_in sub s \<longleftrightarrow> sublist sub s"
  by (induction s) (simp_all add: sublist_Cons_right)

lemma count_list_filter: "count_list xs x = length (filter (\<lambda>c. c = x) xs)"
  by (induction xs) simp_all

lemma css_element_spec: "css_element token \<longleftrightarrow> spec_css_element token"
  by (auto simp: css_element_def spec_css_element_def py_in_sublist count_list_filter)

lemma count_tokens_eq:
  "count_tokens tokens (n, k) =
     (n + int (length tokens), k + int (length (filter css_element tokens)))"
  by (induction tokens arbitrary: n k) simp_all

lemma is_css_counts:
  "is_css text =
     (if py_split text = [] then Inl ZeroDivisionError
      else Inr ((of_nat (length (filter css_element (py_split text))) :: rat) /
                  of_nat (length (py_split text)) > 3 / 10 \<and>
                length (filter css_element (py_split text)) > 20))"
  by (simp add: is_css_def count_tokens_eq)

lemma filter_css_spec: "filter css_element ts = filter spec_css_element ts"
  by (rule filter_cong) (simp_all add: css_element_spec)

lemma split_all_space: "list_all py_isspace s \<Longrightarrow> py_split s = []"
  by (induction s) simp_all

lemma split_space_clean:
  "py_split (space_clean bs t) = py_split (remove_tags bs (utf8_ignore t))"
  by (simp add: space_clean_def split_join split_tokens_ok)

lemma space_clean_tokens: "space_clean bs t \<noteq> [] \<Longrightarrow> py_split (space_clean bs t) \<noteq> []"
proof -
  assume a: "space_clean bs t \<noteq> []"
  have "space_clean bs t = py_join (py_split (space_clean bs t))"
    by (simp add: split_space_clean) (simp add: space_clean_def)
  with a show ?thesis by auto
qed

lemma is_css_total: "py_split text \<noteq> [] \<Longrightarrow> \<exists>b. is_css text = Inr b"
  by (simp add: is_css_counts)

lemma clean_text_cases:
  "clean_text bs t = Inr None \<or>
   (space_clean bs t \<noteq> [] \<and> \<not> is_html (space_clean bs t) \<and>
    is_css (space_clean bs t) = Inr False \<and>
    clean_text bs t = Inr (Some (utf8_ignore (space_clean bs t))))"
proof (cases "space_clean bs t = []")
  case True
  then show ?thesis by (simp add: clean_text_def Let_def)
next
  case False
  from is_css_total [OF space_clean_tokens [OF False]]
  obtain b where "is_css (space_clean bs t) = Inr b" ..
  with False show ?thesis by (cases b) (simp_all add: clean_text_def Let_def)
qed

lemma clean_text_no_error: "clean_text bs t \<noteq> Inl e"
  using clean_text_cases [of bs t] by auto

lemma clean_paragraph_no_zero_division:
  "clean_paragraph bs paragraph \<noteq> Inl ZeroDivisionError"
  by (auto simp: clean_paragraph_def getitem_def py_contains_def clean_text_no_error
      split: sum.splits json.splits option.splits bool.splits if_splits)

section \<open>Facts about the cleaning chain\<close>

lemma remove_tags_single:
  "bs html = [NavigableString html] \<Longrightarrow> remove_tags bs html = py_strip html"
  by (simp add: remove_tags_def stripped_strings_def py_strip_def)

lemma remove_tags_plain:
  "bs html = (if html = [] then [] else [NavigableString html]) \<Longrightarrow>
   remove_tags bs html = py_strip html"
  by (cases "html = []") (simp_all add: remove_tags_def stripped_strings_def py_strip_def)

lemma paragraph_dict_text [simp]: "getitem (paragraph_dict t src) K_text = Inr (JStr t)"
  by (simp add: paragraph_dict_def getitem_def)

lemma paragraph_dict_source [simp]: "getitem (paragraph_dict t src) K_source = Inr src"
  by (simp add: paragraph_dict_def getitem_def key_defs py_def)

lemma clean_paragraph_Some:
  assumes "clean_paragraph bs p = Inr (Some q)"
  shows "\<exists>t src. getitem p K_text = Inr (JStr t) \<and> getitem p K_source = Inr src \<and>
           q = paragraph_dict (utf8_ignore (space_clean bs t)) src \<and>
           \<not> (src = JStr TITLE \<and> py_in (py ''getTime'') t) \<and>
           space_clean bs t \<noteq> [] \<and> \<not> is_html (space_clean bs t) \<and>
           is_css (space_clean bs t) = Inr False"
proof -
  from assms obtain tx src where
    tx: "getitem p K_text = Inr tx" and src: "getitem p K_source = Inr src"
    by (auto simp: clean_paragraph_def split: sum.splits)
  from assms tx src obtain t where t: "tx = JStr t"
    by (cases tx) (auto simp: clean_paragraph_def split: sum.splits bool.splits if_splits)
  from assms tx src t have nt: "\<not> (src = JStr TITLE \<and> py_in (py ''getTime'') t)"
    by (auto simp: clean_paragraph_def py_contains_def split: sum.splits bool.splits if_splits)
  from assms tx src t nt have ct: "clean_text bs t = Inr (Some (utf8_ignore (space_clean bs t))) \<and> q = paragraph_dict (utf8_ignore (space_clean bs t)) src"
    using clean_text_cases [of bs t]
    by (auto simp: clean_paragraph_def py_contains_def split: sum.splits bool.splits if_splits option.splits)
  with clean_text_cases [of bs t] tx src t nt show ?thesis by auto
qed

lemma space_clean_normal: "py_join (py_split (space_clean bs t)) = space_clean bs t"
  by (simp add: split_space_clean) (simp add: space_clean_def)

lemma space_clean_fixed:
  assumes "bs (space_clean bs t) = [NavigableString (space_clean bs t)]"
    and "utf8_ignore (space_clean bs t) = space_clean bs t"
  shows "space_clean bs (space_clean bs t) = space_clean bs t"
proof -
  let ?x = "remove_tags bs (utf8_ignore t)"
  let ?t = "space_clean bs t"
  have t: "?t = py_join (py_split ?x)" by (simp add: space_clean_def)
  have ok: "list_all token_ok (py_split ?x)" by (rule split_tokens_ok)
  from assms(1) have "remove_tags bs ?t = py_strip ?t"
    by (rule remove_tags_single)
  also have "\<dots> = ?t" unfolding t using ok by (rule strip_join)
  finally have r: "remove_tags bs ?t = ?t" .
  have "space_clean bs ?t = py_join (py_split (remove_tags bs (utf8_ignore ?t)))"
    by (simp add: space_clean_def)
  also have "\<dots> = py_join (py_split ?t)" by (simp add: assms(2) r)
  also have "\<dots> = py_join (py_split ?x)" unfolding t using ok by (simp add: split_join)
  finally show ?thesis by (simp add: t)
qed

lemma clean_paragraphs_from:
  "clean_paragraphs bs items = Inr ps \<Longrightarrow>
   \<forall>q\<in>set ps. \<exists>p\<in>set items. clean_paragraph bs p = Inr (Some q)"
proof (induction items arbitrary: ps)
  case Nil
  then show ?case by simp
next
  case (Cons p items)
  from Cons.prems obtain kept rest where
    k: "clean_paragraph bs p = Inr kept" and r: "clean_paragraphs bs items = Inr rest"
    and ps: "ps = (case kept of None \<Rightarrow> rest | Some q \<Rightarrow> q # rest)"
    by (auto split: sum.splits)
  from Cons.IH [OF r] k ps show ?case
    by (cases kept) auto
qed

lemma out_doc_paragraphs:
  "fmlookup (fmap_of_list [(K_id, a), (K_category, b), (K_paragraphs, c), (K_attributes, d)])
     K_paragraphs = Some c"
  by (simp add: key_defs py_def)

lemma process_cases:
  assumes "CleanParagraphsFn_process bs doc = Inr out"
  shows "\<exists>ps. surviving_paragraphs bs doc = Inr ps \<and>
           (out = [] \<or> (has_title ps \<and>
              (\<exists>i c a. out = [fmap_of_list [(K_id, i), (K_category, c),
                                             (K_paragraphs, JList ps), (K_attributes, a)]])))"
proof (cases "surviving_paragraphs bs doc")
  case (Inl e)
  with assms show ?thesis by (simp add: CleanParagraphsFn_process_def)
next
  case (Inr ps)
  show ?thesis
  proof (cases "has_title ps")
    case False
    with assms Inr show ?thesis by (simp add: CleanParagraphsFn_process_def)
  next
    case True
    with assms Inr show ?thesis
      by (auto simp: CleanParagraphsFn_process_def split: sum.splits)
  qed
qed

lemma surviving_from:
  assumes "surviving_paragraphs bs doc = Inr ps"
  shows "\<exists>pv items. getitem (JDict doc) K_paragraphs = Inr pv \<and> py_iter pv = Inr items \<and>
           clean_paragraphs bs items = Inr ps"
  using assms by (auto simp: surviving_paragraphs_def split: sum.splits)

lemma cleaned_paragraph:
  assumes "clean_paragraph bs q = Inr (Some p)"
  shows "\<exists>t src.
           getitem q K_text = Inr (JStr t) \<and> getitem q K_source = Inr src \<and>
           p = paragraph_dict (utf8_ignore (space_clean bs t)) src \<and>
           space_clean bs t \<noteq> [] \<and> \<not> is_html (space_clean bs t) \<and>
           is_css (space_clean bs t) = Inr False \<and>
           (utf8_ignore (space_clean bs t) = space_clean bs t \<longrightarrow>
              (\<exists>u. getitem p K_text = Inr (JStr u) \<and> u \<noteq> [] \<and> \<not> is_html u \<and>
                   is_css u = Inr False))"
proof -
  from clean_paragraph_Some [OF assms] obtain t src where
    a: "getitem q K_text = Inr (JStr t)" "getitem q K_source = Inr src"
    "p = paragraph_dict (utf8_ignore (space_clean bs t)) src"
    "space_clean bs t \<noteq> []" "\<not> is_html (space_clean bs t)"
    "is_css (space_clean bs t) = Inr False"
    by blast
  have "utf8_ignore (space_clean bs t) = space_clean bs t \<longrightarrow>
        (\<exists>u. getitem p K_text = Inr (JStr u) \<and> u \<noteq> [] \<and> \<not> is_html u \<and>
             is_css u = Inr False)"
  proof
    assume "utf8_ignore (space_clean bs t) = space_clean bs t"
    with a have "getitem p K_text = Inr (JStr (space_clean bs t))" by simp
    with a(4-6) show "\<exists>u. getitem p K_text = Inr (JStr u) \<and> u \<noteq> [] \<and> \<not> is_html u \<and>
             is_css u = Inr False" by blast
  qed
  with a show ?thesis by blast
qed

lemma lone_surrogate_text:
  assumes "bs (utf8_ignore t) = [NavigableString [55296]]"
  shows "clean_text bs t = Inr (Some [])"
proof -
  have "space_clean bs t = [55296]"
    by (simp add: space_clean_def remove_tags_def assms stripped_strings_def str_defs)
  then show ?thesis
    by (simp add: clean_text_def is_html_def is_css_def css_element_def utf8_ignore_def
        is_surrogate_def str_defs)
qed

lemma has_title_iff:
  "has_title ps \<longleftrightarrow> (\<exists>p\<in>set ps. getitem p K_source = Inr (JStr TITLE))"
  by (simp add: has_title_def list_ex_iff)

lemma getitem_dict: "fmlookup d k = Some v \<Longrightarrow> getitem (JDict d) k = Inr v"
  by (simp add: getitem_def)

section \<open>Runs on the sample inputs\<close>

lemmas clean_defs = clean_paragraph_def clean_text_def space_clean_def utf8_ignore_def
  is_surrogate_def remove_tags_def stripped_strings_def sample_parse_def py_contains_def
  is_html_def is_css_def css_element_def

lemma space_clean_hello: "space_clean sample_parse (py ''Hello  World'') = py ''Hello World''"
  by (simp add: space_clean_def utf8_ignore_def is_surrogate_def remove_tags_def sample_parse_def stripped_strings_def str_defs)

lemma run_surrogate_title:
  "clean_paragraph sample_parse (paragraph_dict (py ''get'' @ [55296] @ py ''Time'') (JStr TITLE)) =
     Inr (Some (paragraph_dict (py ''getTime'') (JStr TITLE)))"
  by (simp add: clean_defs str_defs TITLE_def)

lemma run_getTime_title:
  "clean_paragraph sample_parse (paragraph_dict (py ''getTime'') (JStr TITLE)) = Inr None"
  by (simp add: clean_defs str_defs TITLE_def)

lemma run_hello:
  "clean_paragraph sample_parse (paragraph_dict (py ''Hello  World'') (JStr TITLE)) =
     Inr (Some (paragraph_dict (py ''Hello World'') (JStr TITLE)))"
  by (simp add: clean_defs str_defs TITLE_def)

lemma run_nice:
  "clean_paragraph sample_parse
     (paragraph_dict (py ''<p>Nice <script>evil()</script>item</p>'') (JStr DESCRIPTION)) =
     Inr (Some (paragraph_dict (py ''Nice item'') (JStr DESCRIPTION)))"
  by (simp add: clean_defs str_defs TITLE_def DESCRIPTION_def)

lemma run_getTime_title2:
  "clean_paragraph sample_parse (paragraph_dict (py ''new Date().getTime()'') (JStr TITLE)) = Inr None"
  by (simp add: clean_defs str_defs TITLE_def)

lemma run_nice_item:
  "clean_paragraph sample_parse (paragraph_dict (py ''Nice item'') (JStr DESCRIPTION)) =
     Inr (Some (paragraph_dict (py ''Nice item'') (JStr DESCRIPTION)))"
  by (simp add: clean_defs str_defs TITLE_def DESCRIPTION_def)

lemma doc_lookups:
  "getitem (JDict (fmupd K_id a (fmupd K_category b (fmupd K_attributes c (fmupd K_paragraphs d fmempty))))) K_paragraphs = Inr d"
  "getitem (JDict (fmupd K_id a (fmupd K_category b (fmupd K_attributes c (fmupd K_paragraphs d fmempty))))) K_id = Inr a"
  "getitem (JDict (fmupd K_id a (fmupd K_category b (fmupd K_attributes c (fmupd K_paragraphs d fmempty))))) K_category = Inr b"
  "getitem (JDict (fmupd K_id a (fmupd K_category b (fmupd K_attributes c (fmupd K_paragraphs d fmempty))))) K_attributes = Inr c"
  by (simp_all add: getitem_def key_defs py_def)

lemma source_neq: "DESCRIPTION \<noteq> TITLE"
  by (simp add: key_defs py_def)

lemmas process_defs = CleanParagraphsFn_process_def surviving_paragraphs_def
  py_iter_def has_title_def doc_lookups source_neq

lemma surv_A: "surviving_paragraphs sample_parse doc_A =
   Inr [paragraph_dict (py ''Hello World'') (JStr TITLE),
        paragraph_dict (py ''Nice item'') (JStr DESCRIPTION)]"
  by (simp add: doc_A_def process_defs run_hello run_nice)

lemma run_A: "CleanParagraphsFn_process sample_parse doc_A =
   Inr [fmap_of_list
     [(K_id, JStr (py ''X1'')), (K_category, JStr (py ''c'')),
      (K_paragraphs, JList
         [paragraph_dict (py ''Hello World'') (JStr TITLE),
          paragraph_dict (py ''Nice item'') (JStr DESCRIPTION)]),
      (K_attributes, JDict fmempty)]]"
  by (simp add: doc_A_def process_defs run_hello run_nice)

lemma surv_B: "surviving_paragraphs sample_parse doc_B =
   Inr [paragraph_dict (py ''Nice item'') (JStr DESCRIPTION)]"
  by (simp add: doc_B_def process_defs run_getTime_title2 run_nice_item)

lemma run_B: "CleanParagraphsFn_process sample_parse doc_B = Inr []"
  by (simp add: doc_B_def process_defs run_getTime_title2 run_nice_item)

lemma doc_D_lookups:
  "getitem (JDict (fmupd K_id a (fmupd K_paragraphs d fmempty))) K_paragraphs = Inr d"
  "getitem (JDict (fmupd K_id a (fmupd K_paragraphs d fmempty))) K_id = Inr a"
  "getitem (JDict (fmupd K_id a (fmupd K_paragraphs d fmempty))) K_category = Inl KeyError"
  by (simp_all add: getitem_def key_defs py_def)

lemma surv_D: "surviving_paragraphs sample_parse doc_D =
   Inr [paragraph_dict (py ''Hello World'') (JStr TITLE)]"
  by (simp add: doc_D_def surviving_paragraphs_def py_iter_def doc_D_lookups run_hello)

lemma run_D: "CleanParagraphsFn_process sample_parse doc_D = Inl KeyError"
  by (simp add: doc_D_def CleanParagraphsFn_process_def surviving_paragraphs_def py_iter_def
      has_title_def doc_D_lookups run_hello)

section \<open>Facts about the grouping\<close>











lemma out_doc_id:
  "fmlookup (fmap_of_list [(K_id, a), (K_category, b), (K_paragraphs, c), (K_attributes, d)])
     K_id = Some a"
  by simp






section \<open>Facts about the flattening\<close>

lemma strip_texts_all_str:
  "all_str xs \<Longrightarrow>
   strip_texts source xs =
     Inr (map (\<lambda>t. paragraph_dict (py_strip t) (JStr source))
            (filter (\<lambda>t. py_strip t \<noteq> []) (str_items xs)))"
  by (induction xs rule: all_str.induct) simp_all

lemma strip_texts_not_all_str:
  "\<not> all_str xs \<Longrightarrow> strip_texts source xs = Inl AttributeError"
  by (induction xs rule: all_str.induct) simp_all

lemma create_paragraphs_ok:
  "strings_only (fmlookup json_example source) \<Longrightarrow>
   create_paragraphs source json_example =
     Inr (spec_flatten_source source (fmlookup json_example source))"
  by (auto simp: create_paragraphs_def dict_get_def strings_only_def spec_flatten_source_def
      spec_texts_def strip_texts_all_str split: option.splits json.splits)

lemma create_paragraphs_bad:
  "\<not> strings_only (fmlookup json_example source) \<Longrightarrow>
   create_paragraphs source json_example = Inl AttributeError"
  by (auto simp: create_paragraphs_def dict_get_def strings_only_def strip_texts_not_all_str
      split: option.splits json.splits)

lemma chain_paragraphs_ok:
  "\<forall>source\<in>set sources. strings_only (fmlookup json_example source) \<Longrightarrow>
   chain_paragraphs sources json_example =
     Inr (concat (map (\<lambda>source. spec_flatten_source source (fmlookup json_example source)) sources))"
  by (induction sources) (simp_all add: create_paragraphs_ok)

lemma chain_paragraphs_bad:
  "\<exists>source\<in>set sources. \<not> strings_only (fmlookup json_example source) \<Longrightarrow>
   chain_paragraphs sources json_example = Inl AttributeError"
proof (induction sources)
  case Nil
  then show ?case by simp
next
  case (Cons s sources)
  show ?case
  proof (cases "strings_only (fmlookup json_example s)")
    case True
    with Cons show ?thesis by (simp add: create_paragraphs_ok)
  next
    case False
    then show ?thesis by (simp add: create_paragraphs_bad)
  qed
qed

lemma raw_A_fields:
  "fmlookup raw_A TITLE = Some (JStr (py ''Hello  World ''))"
  "fmlookup raw_A DESCRIPTION =
     Some (JList [JStr (py ''<p>Nice <script>evil()</script>item</p>''), JStr (py ''  '')])"
  "fmlookup raw_A FEATURE = None"
  "fmlookup raw_A PRICE = Some (JNum 5)"
  "fmlookup raw_A BRAND = Some JNull"
  by (simp_all add: raw_A_def key_defs py_def)

lemma raw_A_flat:
  "spec_flatten raw_A =
     [paragraph_dict (py ''Hello  World'') (JStr TITLE),
      paragraph_dict (py ''<p>Nice <script>evil()</script>item</p>'') (JStr DESCRIPTION)]"
  by (simp add: spec_flatten_def SOURCES_def raw_A_fields spec_flatten_source_def spec_texts_def)
     (simp add: str_defs)

section \<open>CleanParagraphsFn: what an emitted document holds\<close>

text \<open>
  What \<open>CleanParagraphsFn.process\<close> guarantees, whatever the parser does. It yields nothing
  or one document. The paragraphs of that document are the survivors of the loop over the
  input paragraphs, and one of them has the source \<open>title\<close>. Each of them comes from an
  input paragraph with a text \<open>t\<close>: its text is the encoding round trip of
  \<open>text_space_cleaned\<close> for \<open>t\<close>, and \<open>text_space_cleaned\<close> is not empty, holds none of the
  markers of \<open>is_html\<close> and is not flagged by \<open>is_css\<close>. Where the round trip changes
  nothing, the text of the emitted paragraph itself is not empty, holds none of the markers
  and is not flagged.
\<close>

theorem emitted_document:
  assumes "CleanParagraphsFn_process BeautifulSoup json_example = Inr out"
  shows "out = [] \<or>
    (\<exists>d ps pv items. out = [d] \<and> fmlookup d K_paragraphs = Some (JList ps) \<and>
       getitem (JDict json_example) K_paragraphs = Inr pv \<and> py_iter pv = Inr items \<and>
       clean_paragraphs BeautifulSoup items = Inr ps \<and>
       (\<exists>p\<in>set ps. getitem p K_source = Inr (JStr TITLE)) \<and>
       (\<forall>p\<in>set ps. \<exists>q\<in>set items. \<exists>t src.
          getitem q K_text = Inr (JStr t) \<and> getitem q K_source = Inr src \<and>
          p = paragraph_dict (utf8_ignore (space_clean BeautifulSoup t)) src \<and>
          space_clean BeautifulSoup t \<noteq> [] \<and> \<not> is_html (space_clean BeautifulSoup t) \<and>
          is_css (space_clean BeautifulSoup t) = Inr False \<and>
          (utf8_ignore (space_clean BeautifulSoup t) = space_clean BeautifulSoup t \<longrightarrow>
             (\<exists>u. getitem p K_text = Inr (JStr u) \<and> u \<noteq> [] \<and> \<not> is_html u \<and>
                  is_css u = Inr False))))"
proof (cases "out = []")
  case True
  then show ?thesis by simp
next
  case False
  from process_cases [OF assms] False obtain ps i c a where
    surv: "surviving_paragraphs BeautifulSoup json_example = Inr ps"
    and title: "has_title ps"
    and out: "out = [fmap_of_list [(K_id, i), (K_category, c),
                                   (K_paragraphs, JList ps), (K_attributes, a)]]"
    by blast
  let ?d = "fmap_of_list [(K_id, i), (K_category, c), (K_paragraphs, JList ps), (K_attributes, a)]"
  from surviving_from [OF surv] obtain pv items where
    pv: "getitem (JDict json_example) K_paragraphs = Inr pv" and it: "py_iter pv = Inr items"
    and cl: "clean_paragraphs BeautifulSoup items = Inr ps"
    by blast
  have 1: "fmlookup ?d K_paragraphs = Some (JList ps)"
    by (rule out_doc_paragraphs)
  from title have 2: "\<exists>p\<in>set ps. getitem p K_source = Inr (JStr TITLE)"
    by (simp add: has_title_def list_ex_iff)
  have 3: "\<forall>p\<in>set ps. \<exists>q\<in>set items. \<exists>t src.
          getitem q K_text = Inr (JStr t) \<and> getitem q K_source = Inr src \<and>
          p = paragraph_dict (utf8_ignore (space_clean BeautifulSoup t)) src \<and>
          space_clean BeautifulSoup t \<noteq> [] \<and> \<not> is_html (space_clean BeautifulSoup t) \<and>
          is_css (space_clean BeautifulSoup t) = Inr False \<and>
          (utf8_ignore (space_clean BeautifulSoup t) = space_clean BeautifulSoup t \<longrightarrow>
             (\<exists>u. getitem p K_text = Inr (JStr u) \<and> u \<noteq> [] \<and> \<not> is_html u \<and>
                  is_css u = Inr False))"
  proof
    fix p assume "p \<in> set ps"
    with clean_paragraphs_from [OF cl] obtain q where
      q: "q \<in> set items" and run: "clean_paragraph BeautifulSoup q = Inr (Some p)"
      by blast
    from cleaned_paragraph [OF run] q show "\<exists>q\<in>set items. \<exists>t src.
          getitem q K_text = Inr (JStr t) \<and> getitem q K_source = Inr src \<and>
          p = paragraph_dict (utf8_ignore (space_clean BeautifulSoup t)) src \<and>
          space_clean BeautifulSoup t \<noteq> [] \<and> \<not> is_html (space_clean BeautifulSoup t) \<and>
          is_css (space_clean BeautifulSoup t) = Inr False \<and>
          (utf8_ignore (space_clean BeautifulSoup t) = space_clean BeautifulSoup t \<longrightarrow>
             (\<exists>u. getitem p K_text = Inr (JStr u) \<and> u \<noteq> [] \<and> \<not> is_html u \<and>
                  is_css u = Inr False))"
      by blast
  qed
  show ?thesis
    by (rule disjI2, rule exI [of _ ?d], rule exI [of _ ps], rule exI [of _ pv],
        rule exI [of _ items]) (intro conjI out 1 pv it cl 2 3)
qed

theorem emitted_document_witness:
  "CleanParagraphsFn_process sample_parse doc_A =
     Inr [fmap_of_list
       [(K_id, JStr (py ''X1'')), (K_category, JStr (py ''c'')),
        (K_paragraphs, JList
           [paragraph_dict (py ''Hello World'') (JStr TITLE),
            paragraph_dict (py ''Nice item'') (JStr DESCRIPTION)]),
        (K_attributes, JDict fmempty)]] \<and>
   ([fmap_of_list
       [(K_id, JStr (py ''X1'')), (K_category, JStr (py ''c'')),
        (K_paragraphs, JList
           [paragraph_dict (py ''Hello World'') (JStr TITLE),
            paragraph_dict (py ''Nice item'') (JStr DESCRIPTION)]),
        (K_attributes, JDict fmempty)]] = [] \<or>
    (\<exists>d ps pv items. [fmap_of_list
       [(K_id, JStr (py ''X1'')), (K_category, JStr (py ''c'')),
        (K_paragraphs, JList
           [paragraph_dict (py ''Hello World'') (JStr TITLE),
            paragraph_dict (py ''Nice item'') (JStr DESCRIPTION)]),
        (K_attributes, JDict fmempty)]] = [d] \<and> fmlookup d K_paragraphs = Some (JList ps) \<and>
       getitem (JDict doc_A) K_paragraphs = Inr pv \<and> py_iter pv = Inr items \<and>
       clean_paragraphs sample_parse items = Inr ps \<and>
       (\<exists>p\<in>set ps. getitem p K_source = Inr (JStr TITLE)) \<and>
       (\<forall>p\<in>set ps. \<exists>q\<in>set items. \<exists>t src.
          getitem q K_text = Inr (JStr t) \<and> getitem q K_source = Inr src \<and>
          p = paragraph_dict (utf8_ignore (space_clean sample_parse t)) src \<and>
          space_clean sample_parse t \<noteq> [] \<and> \<not> is_html (space_clean sample_parse t) \<and>
          is_css (space_clean sample_parse t) = Inr False \<and>
          (utf8_ignore (space_clean sample_parse t) = space_clean sample_parse t \<longrightarrow>
             (\<exists>u. getitem p K_text = Inr (JStr u) \<and> u \<noteq> [] \<and> \<not> is_html u \<and>
                  is_css u = Inr False)))))"
  by (intro conjI run_A emitted_document [OF run_A])

text \<open>
  C1. The claim is what the guards of the chain are written for, and the program breaks it
  where the parser makes a lone surrogate. The chain tests \<open>text_space_cleaned\<close> for
  emptiness (\<open>if not text_space_cleaned\<close>), for the markers and for CSS, and then keeps
  \<open>text_space_cleaned_recovered\<close>, the text after a second encoding round trip, which no
  test sees. Beautiful Soup up to release 4.14.2 replaces a numeric character reference by
  \<open>chr\<close> of its number, so the description \<open>&#xD800;\<close> becomes the one character U+D800
  (from release 4.15.0 on it becomes U+FFFD). For every parser that returns this tree, and
  the title as it is, \<open>doc_C\<close> is emitted with a description whose text is empty.
\<close>

theorem emitted_empty_text:
  assumes "BeautifulSoup (py ''&#xD800;'') = [NavigableString [55296]]"
    and "BeautifulSoup (py ''T'') = [NavigableString (py ''T'')]"
  shows "CleanParagraphsFn_process BeautifulSoup doc_C =
     Inr [fmap_of_list
       [(K_id, JStr (py ''X4'')), (K_category, JStr (py ''c'')),
        (K_paragraphs, JList
           [paragraph_dict (py ''T'') (JStr TITLE),
            paragraph_dict [] (JStr DESCRIPTION)]),
        (K_attributes, JDict fmempty)]] \<and>
   getitem (paragraph_dict [] (JStr DESCRIPTION)) K_text = Inr (JStr [])"
proof -
  have u1: "utf8_ignore (py ''&#xD800;'') = py ''&#xD800;''"
    and u2: "utf8_ignore (py ''T'') = py ''T''"
    by (simp_all add: utf8_ignore_def is_surrogate_def py_def)
  from assms(1) have d: "clean_text BeautifulSoup (py ''&#xD800;'') = Inr (Some [])"
    by (intro lone_surrogate_text) (simp add: u1)
  have sc: "space_clean BeautifulSoup (py ''T'') = py ''T''"
    by (simp add: space_clean_def u2 remove_tags_def assms(2) stripped_strings_def)
       (simp add: str_defs)
  have t: "clean_text BeautifulSoup (py ''T'') = Inr (Some (py ''T''))"
    unfolding clean_text_def sc Let_def
    by (simp add: is_html_def is_css_def css_element_def utf8_ignore_def is_surrogate_def
        str_defs)
  have nt: "\<not> py_in (py ''getTime'') (py ''T'')"
    by (simp add: py_def)
  have pt: "clean_paragraph BeautifulSoup (paragraph_dict (py ''T'') (JStr TITLE)) =
      Inr (Some (paragraph_dict (py ''T'') (JStr TITLE)))"
    by (simp add: clean_paragraph_def py_contains_def nt t)
  have pd: "clean_paragraph BeautifulSoup (paragraph_dict (py ''&#xD800;'') (JStr DESCRIPTION)) =
      Inr (Some (paragraph_dict [] (JStr DESCRIPTION)))"
    by (simp add: clean_paragraph_def source_neq d)
  show ?thesis
    by (simp add: doc_C_def process_defs pt pd)
qed

theorem emitted_empty_text_witness:
  "(\<lambda>html. if html = py ''&#xD800;'' then [NavigableString [55296]] else [NavigableString html])
     (py ''&#xD800;'') = [NavigableString [55296]] \<and>
   (\<lambda>html. if html = py ''&#xD800;'' then [NavigableString [55296]] else [NavigableString html])
     (py ''T'') = [NavigableString (py ''T'')] \<and>
   CleanParagraphsFn_process
     (\<lambda>html. if html = py ''&#xD800;'' then [NavigableString [55296]] else [NavigableString html])
     doc_C =
     Inr [fmap_of_list
       [(K_id, JStr (py ''X4'')), (K_category, JStr (py ''c'')),
        (K_paragraphs, JList
           [paragraph_dict (py ''T'') (JStr TITLE),
            paragraph_dict [] (JStr DESCRIPTION)]),
        (K_attributes, JDict fmempty)]]"
proof -
  let ?bs = "\<lambda>html. if html = py ''&#xD800;'' then [NavigableString [55296]]
                    else [NavigableString html]"
  have h1: "?bs (py ''&#xD800;'') = [NavigableString [55296]]"
    by simp
  have h2: "?bs (py ''T'') = [NavigableString (py ''T'')]"
    by (simp add: py_def)
  from emitted_empty_text [of ?bs, OF h1 h2] h1 h2 show ?thesis
    by blast
qed

section \<open>is_css: the threshold\<close>

text \<open>
  C2. For every text with at least one token (every whitespace-normalized paragraph text
  that is not empty is one), \<open>is_css\<close> answers that the paragraph is to be dropped exactly when
  the specification's rule says so: the tokens are those of \<open>split()\<close>, a token counts as
  a CSS element when it starts with \<open>.\<close>, \<open>#\<close> or \<open>div\<close>, contains \<open>px\<close> or contains two or
  more hyphens, and the paragraph is dropped when the ratio of the two counts exceeds 0.3
  and the count of CSS elements exceeds 20. In particular a text of 25 tokens, 9 of them CSS
  elements, is retained.
\<close>

theorem is_css_threshold:
  "(py_split text \<noteq> [] \<longrightarrow> is_css text = Inr (spec_css_drop text)) \<and>
   (length (py_split text) = 25 \<and> length (filter spec_css_element (py_split text)) = 9 \<longrightarrow>
      is_css text = Inr False)"
proof (intro conjI impI)
  assume "py_split text \<noteq> []"
  then show "is_css text = Inr (spec_css_drop text)"
    by (simp add: is_css_counts spec_css_drop_def filter_css_spec Let_def)
next
  assume a: "length (py_split text) = 25 \<and> length (filter spec_css_element (py_split text)) = 9"
  then have "py_split text \<noteq> []" by auto
  with a show "is_css text = Inr False"
    by (simp add: is_css_counts filter_css_spec)
qed

lemma css_sample_split:
  "py_split css_sample = map py [''.a'', ''#b'', ''divx'', ''1px'', ''a-b-c'', ''.c'', ''#d'', ''div'', ''2px'',
     ''a-b'', ''p'', ''x'', ''y'', ''z'', ''w'', ''v'', ''u'', ''t'', ''s'', ''r'', ''q'', ''o'', ''n'', ''m'', ''l'']"
  by (simp add: css_sample_def str_defs)

lemma css_sample_count: "length (filter css_element (py_split css_sample)) = 9"
  unfolding css_sample_split by (simp add: css_element_def py_def)

theorem is_css_threshold_witness:
  "py_split css_sample \<noteq> [] \<and> length (py_split css_sample) = 25 \<and>
   length (filter spec_css_element (py_split css_sample)) = 9 \<and>
   is_css css_sample = Inr (spec_css_drop css_sample) \<and> is_css css_sample = Inr False"
proof -
  have n: "length (py_split css_sample) = 25"
    unfolding css_sample_split by simp
  have k: "length (filter spec_css_element (py_split css_sample)) = 9"
    using css_sample_count by (simp add: filter_css_spec)
  from n have ne: "py_split css_sample \<noteq> []" by auto
  from is_css_threshold [of css_sample] n k ne show ?thesis by blast
qed

section \<open>CleanParagraphsFn: the title gate\<close>

text \<open>
  C3, as the claim states it, fails. The label of \<open>doc_D\<close> has an \<open>id\<close> and no
  \<open>category\<close>. Its title survives the chain, and yet no document is emitted: after the gate
  the program reads \<open>json_example['category']\<close> and raises \<open>KeyError\<close>.
\<close>

theorem title_gate_counterexample:
  "surviving_paragraphs sample_parse doc_D =
     Inr [paragraph_dict (py ''Hello World'') (JStr TITLE)] \<and>
   getitem (paragraph_dict (py ''Hello World'') (JStr TITLE)) K_source = Inr (JStr TITLE) \<and>
   CleanParagraphsFn_process sample_parse doc_D = Inl KeyError"
  by (intro conjI surv_D run_D paragraph_dict_source)

text \<open>
  C3, amended. Let the loop over the paragraphs of an input document end with the surviving
  paragraphs. If none of them has the source \<open>title\<close>, the document is dropped: nothing is
  emitted. If a document is emitted, one of them has the source \<open>title\<close>. If one of them
  has the source \<open>title\<close> and the input document has its \<open>id\<close>, \<open>category\<close> and
  \<open>attributes\<close>, the document with these three values and the surviving paragraphs is
  emitted. If one of them has the source \<open>title\<close> and one of the three keys is missing,
  the program raises \<open>KeyError\<close> and emits nothing.
\<close>

theorem title_gate:
  assumes "surviving_paragraphs BeautifulSoup json_example = Inr paragraphs"
  shows "(\<not> (\<exists>p\<in>set paragraphs. getitem p K_source = Inr (JStr TITLE)) \<longrightarrow>
            CleanParagraphsFn_process BeautifulSoup json_example = Inr []) \<and>
         (CleanParagraphsFn_process BeautifulSoup json_example = Inr [d] \<longrightarrow>
            (\<exists>p\<in>set paragraphs. getitem p K_source = Inr (JStr TITLE))) \<and>
         ((\<exists>p\<in>set paragraphs. getitem p K_source = Inr (JStr TITLE)) \<and>
          fmlookup json_example K_id = Some ident \<and>
          fmlookup json_example K_category = Some category \<and>
          fmlookup json_example K_attributes = Some attributes \<longrightarrow>
            CleanParagraphsFn_process BeautifulSoup json_example =
              Inr [fmap_of_list
                     [(K_id, ident), (K_category, category),
                      (K_paragraphs, JList paragraphs), (K_attributes, attributes)]]) \<and>
         ((\<exists>p\<in>set paragraphs. getitem p K_source = Inr (JStr TITLE)) \<and>
          (fmlookup json_example K_id = None \<or> fmlookup json_example K_category = None \<or>
           fmlookup json_example K_attributes = None) \<longrightarrow>
            CleanParagraphsFn_process BeautifulSoup json_example = Inl KeyError)"
proof (intro conjI impI)
  assume "\<not> (\<exists>p\<in>set paragraphs. getitem p K_source = Inr (JStr TITLE))"
  then have "\<not> has_title paragraphs" by (simp add: has_title_iff)
  with assms show "CleanParagraphsFn_process BeautifulSoup json_example = Inr []"
    by (simp add: CleanParagraphsFn_process_def)
next
  assume "CleanParagraphsFn_process BeautifulSoup json_example = Inr [d]"
  from process_cases [OF this] assms have "has_title paragraphs" by auto
  then show "\<exists>p\<in>set paragraphs. getitem p K_source = Inr (JStr TITLE)"
    by (simp add: has_title_iff)
next
  assume a: "(\<exists>p\<in>set paragraphs. getitem p K_source = Inr (JStr TITLE)) \<and>
          fmlookup json_example K_id = Some ident \<and>
          fmlookup json_example K_category = Some category \<and>
          fmlookup json_example K_attributes = Some attributes"
  then have t: "has_title paragraphs" by (simp add: has_title_iff)
  from a have g: "getitem (JDict json_example) K_id = Inr ident"
    "getitem (JDict json_example) K_category = Inr category"
    "getitem (JDict json_example) K_attributes = Inr attributes"
    by (simp_all add: getitem_dict)
  from assms t g show "CleanParagraphsFn_process BeautifulSoup json_example =
              Inr [fmap_of_list
                     [(K_id, ident), (K_category, category),
                      (K_paragraphs, JList paragraphs), (K_attributes, attributes)]]"
    by (simp add: CleanParagraphsFn_process_def)
next
  assume a: "(\<exists>p\<in>set paragraphs. getitem p K_source = Inr (JStr TITLE)) \<and>
          (fmlookup json_example K_id = None \<or> fmlookup json_example K_category = None \<or>
           fmlookup json_example K_attributes = None)"
  then have t: "has_title paragraphs" by (simp add: has_title_iff)
  from a consider "fmlookup json_example K_id = None"
    | "fmlookup json_example K_category = None"
    | "fmlookup json_example K_attributes = None"
    by auto
  then show "CleanParagraphsFn_process BeautifulSoup json_example = Inl KeyError"
  proof cases
    case 1
    with assms t show ?thesis
      by (simp add: CleanParagraphsFn_process_def getitem_def)
  next
    case 2
    with assms t show ?thesis
      by (simp add: CleanParagraphsFn_process_def getitem_def split: option.splits)
  next
    case 3
    with assms t show ?thesis
      by (simp add: CleanParagraphsFn_process_def getitem_def split: option.splits)
  qed
qed

theorem title_gate_witness:
  "surviving_paragraphs sample_parse doc_B =
     Inr [paragraph_dict (py ''Nice item'') (JStr DESCRIPTION)] \<and>
   \<not> (\<exists>p\<in>set [paragraph_dict (py ''Nice item'') (JStr DESCRIPTION)].
         getitem p K_source = Inr (JStr TITLE)) \<and>
   CleanParagraphsFn_process sample_parse doc_B = Inr [] \<and>
   surviving_paragraphs sample_parse doc_A =
     Inr [paragraph_dict (py ''Hello World'') (JStr TITLE),
          paragraph_dict (py ''Nice item'') (JStr DESCRIPTION)] \<and>
   (\<exists>p\<in>set [paragraph_dict (py ''Hello World'') (JStr TITLE),
              paragraph_dict (py ''Nice item'') (JStr DESCRIPTION)].
         getitem p K_source = Inr (JStr TITLE)) \<and>
   fmlookup doc_A K_id = Some (JStr (py ''X1'')) \<and>
   fmlookup doc_A K_category = Some (JStr (py ''c'')) \<and>
   fmlookup doc_A K_attributes = Some (JDict fmempty) \<and>
   CleanParagraphsFn_process sample_parse doc_A =
     Inr [fmap_of_list
       [(K_id, JStr (py ''X1'')), (K_category, JStr (py ''c'')),
        (K_paragraphs, JList
           [paragraph_dict (py ''Hello World'') (JStr TITLE),
            paragraph_dict (py ''Nice item'') (JStr DESCRIPTION)]),
        (K_attributes, JDict fmempty)]] \<and>
   surviving_paragraphs sample_parse doc_D =
     Inr [paragraph_dict (py ''Hello World'') (JStr TITLE)] \<and>
   (\<exists>p\<in>set [paragraph_dict (py ''Hello World'') (JStr TITLE)].
         getitem p K_source = Inr (JStr TITLE)) \<and>
   fmlookup doc_D K_category = None \<and>
   CleanParagraphsFn_process sample_parse doc_D = Inl KeyError"
proof -
  let ?pB = "[paragraph_dict (py ''Nice item'') (JStr DESCRIPTION)]"
  let ?pA = "[paragraph_dict (py ''Hello World'') (JStr TITLE),
              paragraph_dict (py ''Nice item'') (JStr DESCRIPTION)]"
  let ?pD = "[paragraph_dict (py ''Hello World'') (JStr TITLE)]"
  have nb: "\<not> (\<exists>p\<in>set ?pB. getitem p K_source = Inr (JStr TITLE))"
    by (simp add: source_neq)
  from title_gate [OF surv_B] nb
  have rb: "CleanParagraphsFn_process sample_parse doc_B = Inr []"
    by blast
  have ta: "\<exists>p\<in>set ?pA. getitem p K_source = Inr (JStr TITLE)"
    by simp
  have la: "fmlookup doc_A K_id = Some (JStr (py ''X1''))"
    "fmlookup doc_A K_category = Some (JStr (py ''c''))"
    "fmlookup doc_A K_attributes = Some (JDict fmempty)"
    by (simp_all add: doc_A_def key_defs py_def)
  from title_gate [OF surv_A, of _ "JStr (py ''X1'')" "JStr (py ''c'')" "JDict fmempty"] ta la
  have ra: "CleanParagraphsFn_process sample_parse doc_A =
     Inr [fmap_of_list
       [(K_id, JStr (py ''X1'')), (K_category, JStr (py ''c'')),
        (K_paragraphs, JList
           [paragraph_dict (py ''Hello World'') (JStr TITLE),
            paragraph_dict (py ''Nice item'') (JStr DESCRIPTION)]),
        (K_attributes, JDict fmempty)]]"
    by blast
  have td: "\<exists>p\<in>set ?pD. getitem p K_source = Inr (JStr TITLE)"
    by simp
  have ld: "fmlookup doc_D K_category = None"
    by (simp add: doc_D_def key_defs py_def)
  from title_gate [OF surv_D] td ld
  have rd: "CleanParagraphsFn_process sample_parse doc_D = Inl KeyError"
    by blast
  from surv_B nb rb surv_A ta la ra surv_D td ld rd show ?thesis
    by (intro conjI)
qed

section \<open>The deduplication: one document for each identifier\<close>



section \<open>JoinWithLabelsFn: when a record is dropped\<close>




section \<open>ConvertSourcesFn: the flattening\<close>

text \<open>
  C6, as the claim states it, fails. The field \<open>feature\<close> of \<open>raw_F\<close> is a list that
  holds a number. The list passes the test \<open>isinstance(data, list)\<close>, and
  \<open>text.strip()\<close> on the number raises \<open>AttributeError\<close>: a wrong-typed field raises.
\<close>

theorem flatten_sources_counterexample:
  "fmlookup raw_F FEATURE = Some (JList [JNum 1]) \<and>
   create_paragraphs FEATURE raw_F = Inl AttributeError \<and>
   ConvertSourcesFn_process (raw_F, fmap_of_list [(K_id, JStr (py ''X6''))]) =
     Inl AttributeError"
  by (simp add: raw_F_def ConvertSourcesFn_process_def SOURCES_def create_paragraphs_def
      dict_get_def key_defs py_def)

text \<open>
  C6, amended. For every joined record whose list-valued source fields hold strings only,
  \<open>ConvertSourcesFn.process\<close> completes without error: an absent or null field and a
  field that is neither a string nor a list count as empty, and the object it yields holds,
  in the order of the sources and then of the lists, one paragraph for each candidate text
  whose whitespace-trimmed value is not empty. For a joined record with a source field that
  is a list holding an element that is no string, it raises \<open>AttributeError\<close>.
\<close>

theorem flatten_sources:
  "((\<forall>source\<in>set SOURCES. strings_only (fmlookup json_example source)) \<longrightarrow>
      ConvertSourcesFn_process (json_example, labels) =
        Inr [fmupd K_paragraphs (JList (spec_flatten json_example)) fmempty
               ++\<^sub>f deepcopy labels]) \<and>
   ((\<exists>source\<in>set SOURCES. \<not> strings_only (fmlookup json_example source)) \<longrightarrow>
      ConvertSourcesFn_process (json_example, labels) = Inl AttributeError)"
  by (simp add: ConvertSourcesFn_process_def chain_paragraphs_ok chain_paragraphs_bad
      spec_flatten_def del: bex_simps ball_simps)

theorem flatten_sources_witness:
  "strings_only (fmlookup raw_A TITLE) \<and> strings_only (fmlookup raw_A DESCRIPTION) \<and>
   strings_only (fmlookup raw_A FEATURE) \<and> strings_only (fmlookup raw_A PRICE) \<and>
   strings_only (fmlookup raw_A BRAND) \<and>
   ConvertSourcesFn_process (raw_A, fmap_of_list [(K_id, JStr (py ''X1''))]) =
     Inr [fmupd K_paragraphs
            (JList [paragraph_dict (py ''Hello  World'') (JStr TITLE),
                    paragraph_dict (py ''<p>Nice <script>evil()</script>item</p>'')
                      (JStr DESCRIPTION)])
            fmempty
          ++\<^sub>f deepcopy (fmap_of_list [(K_id, JStr (py ''X1''))])] \<and>
   \<not> strings_only (fmlookup raw_F FEATURE) \<and>
   ConvertSourcesFn_process (raw_F, fmap_of_list [(K_id, JStr (py ''X6''))]) =
     Inl AttributeError"
proof -
  have s: "strings_only (fmlookup raw_A TITLE)" "strings_only (fmlookup raw_A DESCRIPTION)"
    "strings_only (fmlookup raw_A FEATURE)" "strings_only (fmlookup raw_A PRICE)"
    "strings_only (fmlookup raw_A BRAND)"
    by (simp_all add: raw_A_fields strings_only_def)
  then have all: "\<forall>source\<in>set SOURCES. strings_only (fmlookup raw_A source)"
    by (simp add: SOURCES_def)
  have f: "\<not> strings_only (fmlookup raw_F FEATURE)"
    by (simp add: raw_F_def strings_only_def key_defs py_def)
  then have some: "\<exists>source\<in>set SOURCES. \<not> strings_only (fmlookup raw_F source)"
    by (simp add: SOURCES_def)
  from flatten_sources [of raw_A "fmap_of_list [(K_id, JStr (py ''X1''))]"] all
  have r1: "ConvertSourcesFn_process (raw_A, fmap_of_list [(K_id, JStr (py ''X1''))]) =
     Inr [fmupd K_paragraphs (JList (spec_flatten raw_A)) fmempty
          ++\<^sub>f deepcopy (fmap_of_list [(K_id, JStr (py ''X1''))])]"
    by blast
  from flatten_sources [of raw_F "fmap_of_list [(K_id, JStr (py ''X6''))]"] some
  have r2: "ConvertSourcesFn_process (raw_F, fmap_of_list [(K_id, JStr (py ''X6''))]) =
     Inl AttributeError"
    by blast
  from s r1 [unfolded raw_A_flat] f r2 show ?thesis by (intro conjI)
qed

section \<open>remove_tags on a text without tags\<close>

text \<open>
  C7, as the claim states it, fails. In \<open>Tom &amp; Jerry\<close> the parser finds no tag, but it
  replaces the entity reference by the character it names: the result is
  \<open>Tom & Jerry\<close>, which is not the trimmed input.
\<close>

theorem remove_tags_no_tags_counterexample:
  "no_tags (sample_parse (py ''Tom &amp; Jerry'')) \<and>
   remove_tags sample_parse (py ''Tom &amp; Jerry'') = py ''Tom & Jerry'' \<and>
   py_strip (py ''Tom &amp; Jerry'') = py ''Tom &amp; Jerry'' \<and>
   remove_tags sample_parse (py ''Tom &amp; Jerry'') \<noteq> py_strip (py ''Tom &amp; Jerry'')"
  by (simp add: sample_parse_def remove_tags_def stripped_strings_def str_defs)

text \<open>
  C7, amended. When the parser returns the input text itself as its only string (it found
  no tag and replaced no entity or character reference), or nothing for the empty text,
  \<open>remove_tags\<close> returns exactly the whitespace-trimmed input text.
\<close>

theorem remove_tags_plain_text:
  assumes "BeautifulSoup html = (if html = [] then [] else [NavigableString html])"
  shows "remove_tags BeautifulSoup html = py_strip html"
  using assms by (rule remove_tags_plain)

theorem remove_tags_plain_text_witness:
  "sample_parse (py '' Hello World '') =
     (if py '' Hello World '' = [] then [] else [NavigableString (py '' Hello World '')]) \<and>
   remove_tags sample_parse (py '' Hello World '') = py_strip (py '' Hello World '') \<and>
   py_strip (py '' Hello World '') = py ''Hello World''"
proof -
  have h: "sample_parse (py '' Hello World '') =
     (if py '' Hello World '' = [] then [] else [NavigableString (py '' Hello World '')])"
    by (simp add: sample_parse_def py_def)
  have s: "py_strip (py '' Hello World '') = py ''Hello World''"
    by (simp add: str_defs)
  from remove_tags_plain_text [of sample_parse "py '' Hello World ''"] h s show ?thesis by simp
qed

section \<open>Running the chain on a cleaned paragraph\<close>

text \<open>
  C8, as the claim states it, fails. The title \<open>get\<close>, U+D800, \<open>Time\<close> does not contain
  \<open>getTime\<close>, so the malformed-title filter lets it pass; the encoding round trip leaves
  the lone surrogate out, and the paragraph survives with the text \<open>getTime\<close>. Run on that
  paragraph, the chain drops it as a malformed title.
\<close>

theorem clean_paragraph_rerun_counterexample:
  "clean_paragraph sample_parse
     (paragraph_dict (py ''get'' @ [55296] @ py ''Time'') (JStr TITLE)) =
     Inr (Some (paragraph_dict (py ''getTime'') (JStr TITLE))) \<and>
   clean_paragraph sample_parse (paragraph_dict (py ''getTime'') (JStr TITLE)) = Inr None"
  by (intro conjI run_surrogate_title run_getTime_title)

text \<open>
  C8, amended. Let a paragraph survive the chain with the text \<open>t'\<close>. If the second
  encoding round trip changed nothing (\<open>t'\<close> is \<open>text_space_cleaned\<close>), the parser returns
  \<open>t'\<close> as its only string (it finds no markup in it), and the paragraph is not a title
  whose cleaned text contains \<open>getTime\<close>, then the chain run on the cleaned paragraph keeps
  it and yields the identical paragraph.
\<close>

theorem clean_paragraph_rerun:
  assumes "clean_paragraph BeautifulSoup p = Inr (Some p')"
    and "getitem p K_text = Inr (JStr t)"
    and "getitem p' K_text = Inr (JStr t')"
    and "getitem p' K_source = Inr src"
    and "t' = space_clean BeautifulSoup t"
    and "BeautifulSoup t' = [NavigableString t']"
    and "\<not> (src = JStr TITLE \<and> py_in (py ''getTime'') t')"
  shows "clean_paragraph BeautifulSoup p' = Inr (Some p')"
proof -
  from clean_paragraph_Some [OF assms(1)] assms(2) obtain s where
    p': "p' = paragraph_dict (utf8_ignore (space_clean BeautifulSoup t)) s"
    and ne: "space_clean BeautifulSoup t \<noteq> []"
    and html: "\<not> is_html (space_clean BeautifulSoup t)"
    and css: "is_css (space_clean BeautifulSoup t) = Inr False"
    by auto
  from p' assms(3,4) have s: "s = src" and u: "utf8_ignore (space_clean BeautifulSoup t) = t'"
    by simp_all
  from u assms(5) have stable: "utf8_ignore (space_clean BeautifulSoup t) = space_clean BeautifulSoup t"
    by simp
  from assms(5,6) have "space_clean BeautifulSoup t' = t'"
    using space_clean_fixed [OF _ stable] by simp
  with ne html css assms(5) stable have "clean_text BeautifulSoup t' = Inr (Some t')"
    by (simp add: clean_text_def)
  with assms(7) show ?thesis
    by (auto simp: clean_paragraph_def p' s u py_contains_def)
qed

theorem clean_paragraph_rerun_witness:
  "clean_paragraph sample_parse (paragraph_dict (py ''Hello  World'') (JStr TITLE)) =
     Inr (Some (paragraph_dict (py ''Hello World'') (JStr TITLE))) \<and>
   py ''Hello World'' = space_clean sample_parse (py ''Hello  World'') \<and>
   sample_parse (py ''Hello World'') = [NavigableString (py ''Hello World'')] \<and>
   \<not> (JStr TITLE = JStr TITLE \<and> py_in (py ''getTime'') (py ''Hello World'')) \<and>
   clean_paragraph sample_parse (paragraph_dict (py ''Hello World'') (JStr TITLE)) =
     Inr (Some (paragraph_dict (py ''Hello World'') (JStr TITLE)))"
proof -
  have sc: "py ''Hello World'' = space_clean sample_parse (py ''Hello  World'')"
    by (simp add: space_clean_hello)
  have parse: "sample_parse (py ''Hello World'') = [NavigableString (py ''Hello World'')]"
    by (simp add: sample_parse_def py_def)
  have title: "\<not> (JStr TITLE = JStr TITLE \<and> py_in (py ''getTime'') (py ''Hello World''))"
    by (simp add: py_def)
  from clean_paragraph_rerun [OF run_hello paragraph_dict_text paragraph_dict_text
      paragraph_dict_source sc parse title] run_hello sc parse title
  show ?thesis by (intro conjI)
qed

section \<open>is_css: the division\<close>

text \<open>
  C9. In the cleaning chain \<open>is_css\<close> is applied to \<open>text_space_cleaned\<close> only when that
  text is not empty; it then has at least one token, the division is by a count of at least
  1 and \<open>is_css\<close> returns a truth value, so no paragraph makes the chain raise
  \<open>ZeroDivisionError\<close>. Applied to the empty string or to a string of whitespace only,
  \<open>is_css\<close> itself raises \<open>ZeroDivisionError\<close>.
\<close>

theorem is_css_division:
  "clean_paragraph BeautifulSoup paragraph \<noteq> Inl ZeroDivisionError \<and>
   (space_clean BeautifulSoup t \<noteq> [] \<longrightarrow>
      1 \<le> length (py_split (space_clean BeautifulSoup t)) \<and>
      (\<exists>b. is_css (space_clean BeautifulSoup t) = Inr b)) \<and>
   (list_all py_isspace text \<longrightarrow> is_css text = Inl ZeroDivisionError)"
proof (intro conjI impI)
  show "clean_paragraph BeautifulSoup paragraph \<noteq> Inl ZeroDivisionError"
    by (rule clean_paragraph_no_zero_division)
next
  assume "space_clean BeautifulSoup t \<noteq> []"
  then have "py_split (space_clean BeautifulSoup t) \<noteq> []" by (rule space_clean_tokens)
  then show "1 \<le> length (py_split (space_clean BeautifulSoup t))"
    by (cases "py_split (space_clean BeautifulSoup t)") simp_all
next
  assume "space_clean BeautifulSoup t \<noteq> []"
  then show "\<exists>b. is_css (space_clean BeautifulSoup t) = Inr b"
    by (intro is_css_total space_clean_tokens)
next
  assume "list_all py_isspace text"
  then show "is_css text = Inl ZeroDivisionError"
    by (simp add: is_css_counts split_all_space)
qed

theorem is_css_division_witness:
  "space_clean sample_parse (py ''Hello  World'') \<noteq> [] \<and>
   1 \<le> length (py_split (space_clean sample_parse (py ''Hello  World''))) \<and>
   is_css (space_clean sample_parse (py ''Hello  World'')) = Inr False \<and>
   list_all py_isspace [32, 9, 10] \<and> is_css [32, 9, 10] = Inl ZeroDivisionError \<and>
   is_css [] = Inl ZeroDivisionError \<and>
   clean_paragraph sample_parse (paragraph_dict (py ''Hello  World'') (JStr TITLE)) \<noteq>
     Inl ZeroDivisionError"
proof -
  have ne: "space_clean sample_parse (py ''Hello  World'') \<noteq> []"
    unfolding space_clean_hello by (simp add: py_def)
  have sp: "list_all py_isspace [32, 9, 10]"
    by (simp add: py_isspace_def)
  have css: "is_css (space_clean sample_parse (py ''Hello  World'')) = Inr False"
    unfolding space_clean_hello by (simp add: is_css_def css_element_def str_defs)
  from is_css_division [of sample_parse "paragraph_dict (py ''Hello  World'') (JStr TITLE)"
      "py ''Hello  World''" "[32, 9, 10]"]
    is_css_division [of sample_parse "paragraph_dict (py ''Hello  World'') (JStr TITLE)"
      "py ''Hello  World''" "[]"] ne sp css
  show ?thesis by simp
qed

section \<open>ConvertSourcesFn: the fields of the label win\<close>

text \<open>
  C10. In the object \<open>ConvertSourcesFn.process\<close> yields, every key of the label record
  has the label's value; this holds for the key \<open>paragraphs\<close> too, whose value is then the
  label's and not the list of flattened paragraphs. The concrete run after the theorem is a
  joined record whose label has a key \<open>paragraphs\<close>.
\<close>

theorem label_fields_overwrite:
  assumes "ConvertSourcesFn_process (json_example, labels) = Inr [out]"
    and "fmlookup labels key = Some v"
  shows "fmlookup out key = Some v"
  using assms
  by (auto simp: ConvertSourcesFn_process_def deepcopy_def fmlookup_dom_iff split: sum.splits)

theorem label_fields_overwrite_witness:
  "ConvertSourcesFn_process
     (fmap_of_list [(TITLE, JStr (py '' Hello ''))],
      fmap_of_list [(K_id, JStr (py ''X'')), (K_paragraphs, JStr (py ''mine''))]) =
     Inr [fmupd K_paragraphs (JList [paragraph_dict (py ''Hello'') (JStr TITLE)]) fmempty
            ++\<^sub>f fmap_of_list [(K_id, JStr (py ''X'')), (K_paragraphs, JStr (py ''mine''))]] \<and>
   chain_paragraphs SOURCES (fmap_of_list [(TITLE, JStr (py '' Hello ''))]) =
     Inr [paragraph_dict (py ''Hello'') (JStr TITLE)] \<and>
   fmlookup
     (fmupd K_paragraphs (JList [paragraph_dict (py ''Hello'') (JStr TITLE)]) fmempty
        ++\<^sub>f fmap_of_list [(K_id, JStr (py ''X'')), (K_paragraphs, JStr (py ''mine''))])
     K_paragraphs = Some (JStr (py ''mine''))"
proof -
  let ?ex = "fmap_of_list [(TITLE, JStr (py '' Hello ''))]"
  let ?labels = "fmap_of_list [(K_id, JStr (py ''X'')), (K_paragraphs, JStr (py ''mine''))]"
  let ?out = "fmupd K_paragraphs (JList [paragraph_dict (py ''Hello'') (JStr TITLE)]) fmempty
                ++\<^sub>f ?labels"
  have flat: "chain_paragraphs SOURCES ?ex = Inr [paragraph_dict (py ''Hello'') (JStr TITLE)]"
    by (simp add: SOURCES_def create_paragraphs_def dict_get_def key_defs str_defs)
  have run: "ConvertSourcesFn_process (?ex, ?labels) = Inr [?out]"
    by (simp add: ConvertSourcesFn_process_def SOURCES_def create_paragraphs_def dict_get_def
        key_defs str_defs deepcopy_def)
  have lab: "fmlookup ?labels K_paragraphs = Some (JStr (py ''mine''))"
    by (simp add: key_defs py_def)
  from label_fields_overwrite [OF run lab] flat run show ?thesis
    by simp
qed

end
